theory Spec2Isabelle
  imports Main "HOL-Library.Word"
begin

unbundle bit_operations_syntax

section \<open>JavaScript values used by the worker\<close>

text \<open>
  Strings are lists of 8-bit characters, read as Latin-1 code units: this is exactly the
  range of an HTTP header value and of the argument \<open>btoa\<close> accepts.  A thrown
  JavaScript exception is a value of \<open>jsError\<close>; a function that may throw returns
  \<open>jsError + 'a\<close> with \<open>Inl\<close> for the exception.
\<close>

datatype jsError = RangeError | TypeError | SyntaxError | InvalidCharacterError | ConstraintError

datatype json =
    JNull
  | JBool bool
  | JNum int
  | JStr string
  | JArr "json list"
  | JObj "(string \<times> json) list"

text \<open>Truthiness of an optional string (\<open>undefined\<close>, \<open>null\<close> and \<open>""\<close> are falsy).\<close>

fun truthy :: "string option \<Rightarrow> bool" where
  "truthy None = False"
| "truthy (Some s) = (s \<noteq> [])"

fun falsy :: "string option \<Rightarrow> bool" where
  "falsy None = True"
| "falsy (Some s) = (s = [])"

text \<open>\<open>WhiteSpace\<close> and \<open>LineTerminator\<close> code units below 256: TAB, LF, VT, FF, CR, SP, NBSP.\<close>

definition isWhiteSpace :: "char \<Rightarrow> bool" where
  "isWhiteSpace c = (let n = (of_char c :: nat) in (9 \<le> n \<and> n \<le> 13) \<or> n = 32 \<or> n = 160)"

text \<open>\<open>String.prototype.toLowerCase\<close> on Latin-1 code units.\<close>

definition toLowerChar :: "char \<Rightarrow> char" where
  "toLowerChar c = (let n = (of_char c :: nat) in
     if (65 \<le> n \<and> n \<le> 90) \<or> (192 \<le> n \<and> n \<le> 222 \<and> n \<noteq> 215) then char_of (n + 32) else c)"

definition toLowerCase :: "string \<Rightarrow> string" where
  "toLowerCase s = map toLowerChar s"

definition trim :: "string \<Rightarrow> string" where
  "trim s = rev (dropWhile isWhiteSpace (rev (dropWhile isWhiteSpace s)))"

definition startsWith :: "string \<Rightarrow> string \<Rightarrow> bool" where
  "startsWith s p = (take (length p) s = p)"

text \<open>\<open>s.split(d)\<close> for a one-character separator; the result is never empty.\<close>

fun splitOn :: "char \<Rightarrow> string \<Rightarrow> string list" where
  "splitOn d [] = [[]]"
| "splitOn d (c # cs) =
     (if c = d then [] # splitOn d cs
      else (case splitOn d cs of [] \<Rightarrow> [[c]] | p # ps \<Rightarrow> (c # p) # ps))"

text \<open>\<open>s.indexOf(p)\<close>; \<open>None\<close> is the source's \<open>-1\<close>.\<close>

fun indexOf :: "string \<Rightarrow> string \<Rightarrow> nat option" where
  "indexOf [] p = (if p = [] then Some 0 else None)"
| "indexOf (c # cs) p =
     (if startsWith (c # cs) p then Some 0 else map_option Suc (indexOf cs p))"

text \<open>\<open>s.includes(c)\<close> for a one-character argument.\<close>

definition includesChar :: "string \<Rightarrow> char \<Rightarrow> bool" where
  "includesChar s c = (c \<in> set s)"

text \<open>The value of a digit or letter in \<open>parseInt\<close>; \<open>None\<close> for any other character.\<close>

definition digitValue :: "char \<Rightarrow> nat option" where
  "digitValue c = (let n = (of_char c :: nat) in
     if 48 \<le> n \<and> n \<le> 57 then Some (n - 48)
     else if 97 \<le> n \<and> n \<le> 122 then Some (n - 87)
     else if 65 \<le> n \<and> n \<le> 90 then Some (n - 55)
     else None)"

definition isRadixDigit :: "nat \<Rightarrow> char \<Rightarrow> bool" where
  "isRadixDigit radix c = (case digitValue c of None \<Rightarrow> False | Some v \<Rightarrow> v < radix)"

definition digitsValue :: "nat \<Rightarrow> string \<Rightarrow> int" where
  "digitsValue radix ds = foldl (\<lambda>acc c. acc * int radix + int (the (digitValue c))) 0 ds"

text \<open>
  \<open>parseInt(s, radix)\<close> for radix 10 or 16, as ECMAScript defines it: leading white space
  is skipped, a sign is read, with radix 16 a leading \<open>0x\<close> or \<open>0X\<close> is dropped, and the
  longest prefix of digits is converted; the rest of the string is ignored.  \<open>None\<close> is
  \<open>NaN\<close>.  The source only compares the result with small bounds, so the rounding of a
  Number beyond 2^53 is not modelled.
\<close>

definition parseInt :: "string \<Rightarrow> nat \<Rightarrow> int option" where
  "parseInt s radix =
     (let s1 = dropWhile isWhiteSpace s;
          neg = (s1 \<noteq> [] \<and> hd s1 = CHR ''-'');
          s2 = (if s1 \<noteq> [] \<and> (hd s1 = CHR ''-'' \<or> hd s1 = CHR ''+'') then tl s1 else s1);
          s3 = (if radix = 16 \<and> (startsWith s2 ''0x'' \<or> startsWith s2 ''0X'') then drop 2 s2 else s2);
          ds = takeWhile (isRadixDigit radix) s3
      in if ds = [] then None
         else Some (if neg then - digitsValue radix ds else digitsValue radix ds))"

section \<open>IP range utilities (Campus Pass)\<close>

text \<open>The loop of \<open>ipv4ToBigInt\<close> and \<open>ipv6ToBigInt\<close>: \<open>None\<close> is the source's \<open>null\<close>.\<close>

fun ipv4Loop :: "int \<Rightarrow> string list \<Rightarrow> int option" where
  "ipv4Loop result [] = Some result"
| "ipv4Loop result (part # parts) =
     (case parseInt part 10 of
        None \<Rightarrow> None
      | Some num \<Rightarrow>
          if num < 0 \<or> num > 255 then None
          else ipv4Loop (push_bit 8 result OR num) parts)"

definition ipv4ToBigInt :: "string \<Rightarrow> int option" where
  "ipv4ToBigInt ip =
     (let parts = splitOn CHR ''.'' ip
      in if length parts \<noteq> 4 then None else ipv4Loop 0 parts)"

fun ipv6Loop :: "int \<Rightarrow> string list \<Rightarrow> int option" where
  "ipv6Loop result [] = Some result"
| "ipv6Loop result (part # parts) =
     (case parseInt (if part = [] then ''0'' else part) 16 of
        None \<Rightarrow> None
      | Some num \<Rightarrow>
          if num < 0 \<or> num > 65535 then None
          else ipv6Loop (push_bit 16 result OR num) parts)"

text \<open>
  \<open>ipv6ToBigInt\<close>.  \<open>Array(missing)\<close> throws a RangeError when \<open>missing\<close> is negative,
  which the source does not catch.
\<close>

definition ipv6ToBigInt :: "string \<Rightarrow> jsError + int option" where
  "ipv6ToBigInt ip =
     (case indexOf ip ''::'' of
        None \<Rightarrow>
          (let parts = splitOn CHR '':'' ip
           in Inr (if length parts \<noteq> 8 then None else ipv6Loop 0 parts))
      | Some doubleColonIndex \<Rightarrow>
          (let before = filter (\<lambda>p. p \<noteq> []) (splitOn CHR '':'' (take doubleColonIndex ip));
               after = filter (\<lambda>p. p \<noteq> []) (splitOn CHR '':'' (drop (doubleColonIndex + 2) ip));
               missing = 8 - int (length before) - int (length after)
           in if missing < 0 then Inl RangeError
              else (let parts = before @ replicate (nat missing) ''0'' @ after
                    in Inr (if length parts \<noteq> 8 then None else ipv6Loop 0 parts))))"

text \<open>The mask of \<open>isIPInCIDR\<close> for an address of \<open>width\<close> bits.\<close>

definition cidrMask :: "nat \<Rightarrow> int \<Rightarrow> int" where
  "cidrMask width prefixLen =
     (if prefixLen = 0 then 0
      else push_bit (nat (int width - prefixLen)) (NOT 0) AND (push_bit width 1 - 1))"

text \<open>
  \<open>isIPInCIDR\<close>.  \<open>cidr.split('/')\<close> is destructured into its first two elements; a
  missing second element is \<open>undefined\<close>, which \<open>parseInt\<close> reads as the string
  \<open>"undefined"\<close>.
\<close>

definition isIPInCIDR :: "string \<Rightarrow> string \<Rightarrow> jsError + bool" where
  "isIPInCIDR ip cidr =
     (let pieces = splitOn CHR ''/'' cidr;
          rangeIP = hd pieces;
          prefixLenStr = (if length pieces < 2 then ''undefined'' else pieces ! 1);
          prefixLen = parseInt prefixLenStr 10;
          isV6 = includesChar ip CHR '':'';
          isRangeV6 = includesChar rangeIP CHR '':''
      in if isV6 \<noteq> isRangeV6 then Inr False
         else if isV6 then
           (case ipv6ToBigInt ip of
              Inl e \<Rightarrow> Inl e
            | Inr ipVal \<Rightarrow>
                (case ipv6ToBigInt rangeIP of
                   Inl e \<Rightarrow> Inl e
                 | Inr rangeVal \<Rightarrow>
                     (case (ipVal, rangeVal, prefixLen) of
                        (Some i, Some r, Some p) \<Rightarrow>
                          if p < 0 \<or> p > 128 then Inr False
                          else Inr (i AND cidrMask 128 p = r AND cidrMask 128 p)
                      | _ \<Rightarrow> Inr False)))
         else
           (case (ipv4ToBigInt ip, ipv4ToBigInt rangeIP, prefixLen) of
              (Some i, Some r, Some p) \<Rightarrow>
                if p < 0 \<or> p > 32 then Inr False
                else Inr (i AND cidrMask 32 p = r AND cidrMask 32 p)
            | _ \<Rightarrow> Inr False))"

text \<open>\<open>Array.prototype.some\<close> with a callback that may throw.\<close>

fun someJs :: "('a \<Rightarrow> jsError + bool) \<Rightarrow> 'a list \<Rightarrow> jsError + bool" where
  "someJs f [] = Inr False"
| "someJs f (x # xs) =
     (case f x of
        Inl e \<Rightarrow> Inl e
      | Inr True \<Rightarrow> Inr True
      | Inr False \<Rightarrow> someJs f xs)"

definition isOnCampus :: "string \<Rightarrow> string \<Rightarrow> jsError + bool" where
  "isOnCampus ip rangesConfig =
     (if rangesConfig = [] \<or> ip = [] then Inr False
      else (let ranges = filter (\<lambda>r. r \<noteq> []) (map trim (splitOn CHR '','' rangesConfig))
            in someJs (\<lambda>range. isIPInCIDR ip range) ranges))"

section \<open>Requests, bindings and the key registry\<close>

text \<open>Header names are kept in lower case, since \<open>Headers\<close> is case-insensitive.\<close>

type_synonym headers = "(string \<times> string) list"

definition headersGet :: "headers \<Rightarrow> string \<Rightarrow> string option" where
  "headersGet hs name = map_of hs (toLowerCase name)"

definition headersDelete :: "headers \<Rightarrow> string \<Rightarrow> headers" where
  "headersDelete hs name = filter (\<lambda>h. fst h \<noteq> toLowerCase name) hs"

definition headersSet :: "headers \<Rightarrow> string \<Rightarrow> string \<Rightarrow> headers" where
  "headersSet hs name v = headersDelete hs name @ [(toLowerCase name, v)]"

record message =
  role :: string
  content :: string
  messageRest :: "(string \<times> json) list"

text \<open>
  The request body after \<open>c.req.json()\<close>, at the type the handlers cast it to:
  \<open>{ messages?: Array<{ role: string; content: string }>; instructions?: string;
  user?: string; [k: string]: unknown }\<close>.
\<close>

record jsonBody =
  messages :: "message list option"
  instructions :: "string option"
  user :: "string option"
  bodyRest :: "(string \<times> json) list"

text \<open>
  An inbound request.  \<open>parsedBody\<close> is the result of \<open>c.req.json()\<close>: \<open>None\<close> when it
  throws because the body is not JSON.
\<close>

record request =
  httpMethod :: string
  pathname :: string
  search :: string
  reqHeaders :: headers
  rawBody :: string
  parsedBody :: "jsonBody option"

record bindings =
  KEY_NAME_TEMPLATE :: string
  SYSTEM_PROMPT_PREFIX :: string
  CAMPUS_IP_RANGES :: string
  CAMPUS_SYSTEM_PREFIX :: string
  CAMPUS_POOL_KEY :: string

text \<open>A row of table \<open>user_keys\<close> (migration 0001).\<close>

record userKeyRow =
  email :: string
  bayleaf_token :: string
  or_key_hash :: string
  or_key_secret :: string
  revoked :: int
  created_at :: string

record response =
  status :: nat
  responseJson :: json

definition BAYLEAF_TOKEN_PREFIX :: string where
  "BAYLEAF_TOKEN_PREFIX = ''sk-bayleaf-''"

definition OPENROUTER_API :: string where
  "OPENROUTER_API = ''https://openrouter.ai/api/v1''"

text \<open>\<open>getClientIP\<close>: \<open>a || b\<close> takes \<open>b\<close> when \<open>a\<close> is \<open>null\<close> or empty.\<close>

definition getClientIP :: "request \<Rightarrow> string" where
  "getClientIP r =
     (let cf = headersGet (reqHeaders r) ''CF-Connecting-IP'';
          xff = map_option (\<lambda>v. trim (hd (splitOn CHR '','' v)))
                  (headersGet (reqHeaders r) ''X-Forwarded-For'')
      in if truthy cf then the cf
         else if truthy xff then the xff
         else ''127.0.0.1'')"

definition isCampusPassEligible :: "request \<Rightarrow> bindings \<Rightarrow> jsError + bool" where
  "isCampusPassEligible r env =
     (if CAMPUS_IP_RANGES env = [] \<or> CAMPUS_POOL_KEY env = [] then Inr False
      else isOnCampus (getClientIP r) (CAMPUS_IP_RANGES env))"

section \<open>Auth resolution\<close>

record authResult =
  authorization :: string
  isCampusMode :: bool
  userEmail :: "string option"

datatype authResolution =
    AuthThrows jsError
  | AuthFailure response
  | AuthSuccess authResult

text \<open>\<open>h.replace(/^Bearer\s+/i, '')\<close>.\<close>

definition replaceBearer :: "string \<Rightarrow> string" where
  "replaceBearer h =
     (if toLowerCase (take 6 h) = ''bearer'' \<and> 6 < length h \<and> isWhiteSpace (h ! 6)
      then dropWhile isWhiteSpace (drop 6 h) else h)"

definition providedKeyOf :: "request \<Rightarrow> string option" where
  "providedKeyOf r =
     map_option (\<lambda>h. trim (replaceBearer h)) (headersGet (reqHeaders r) ''Authorization'')"

definition apiKeyRequiredMessage :: string where
  "apiKeyRequiredMessage =
     ''API key required. On-campus users can omit the key or use '' @ [CHR 0x22] @ ''campus''
     @ [CHR 0x22] @ ''. Visit https://api.bayleaf.chat/ for a free personal key.''"

definition errorJson :: "string \<Rightarrow> int \<Rightarrow> json" where
  "errorJson msg code = JObj [(''error'', JObj [(''message'', JStr msg), (''code'', JNum code)])]"

definition apiKeyRequired :: response where
  "apiKeyRequired = \<lparr>status = 401, responseJson = errorJson apiKeyRequiredMessage 401\<rparr>"

definition invalidOrRevoked :: response where
  "invalidOrRevoked =
     \<lparr>status = 401, responseJson = errorJson ''Invalid or revoked API key.'' 401\<rparr>"

text \<open>\<open>SELECT * FROM user_keys WHERE bayleaf_token = ? AND revoked = 0\<close>, first row.\<close>

definition findActiveByToken :: "userKeyRow list \<Rightarrow> string \<Rightarrow> userKeyRow option" where
  "findActiveByToken db token = find (\<lambda>row. bayleaf_token row = token \<and> revoked row = 0) db"

text \<open>The test \<open>!providedKey || providedKey === '' || providedKey.toLowerCase() === 'campus'\<close>.\<close>

definition isCampusCandidate :: "string option \<Rightarrow> bool" where
  "isCampusCandidate providedKey =
     (falsy providedKey \<or> providedKey = Some [] \<or>
      map_option toLowerCase providedKey = Some ''campus'')"

definition resolveAuth :: "bindings \<Rightarrow> userKeyRow list \<Rightarrow> request \<Rightarrow> authResolution" where
  "resolveAuth env db r =
     (let authHeader = headersGet (reqHeaders r) ''Authorization'';
          providedKey = providedKeyOf r
      in if isCampusCandidate providedKey then
           (case isCampusPassEligible r env of
              Inl e \<Rightarrow> AuthThrows e
            | Inr True \<Rightarrow>
                AuthSuccess \<lparr>authorization = ''Bearer '' @ CAMPUS_POOL_KEY env,
                             isCampusMode = True, userEmail = None\<rparr>
            | Inr False \<Rightarrow> AuthFailure apiKeyRequired)
         else if startsWith (the providedKey) BAYLEAF_TOKEN_PREFIX then
           (case findActiveByToken db (the providedKey) of
              None \<Rightarrow> AuthFailure invalidOrRevoked
            | Some row \<Rightarrow>
                AuthSuccess \<lparr>authorization = ''Bearer '' @ or_key_secret row,
                             isCampusMode = False, userEmail = Some (email row)\<rparr>)
         else AuthSuccess \<lparr>authorization = the authHeader,
                            isCampusMode = False, userEmail = None\<rparr>)"

section \<open>Proxy tokens\<close>

definition hexDigit :: "nat \<Rightarrow> char" where
  "hexDigit n = ''0123456789abcdef'' ! n"

text \<open>\<open>b.toString(16)\<close> for a byte, and \<open>padStart(2, '0')\<close>.\<close>

definition toString16 :: "8 word \<Rightarrow> string" where
  "toString16 b =
     (if unat b < 16 then [hexDigit (unat b)]
      else [hexDigit (unat b div 16), hexDigit (unat b mod 16)])"

definition padStart2 :: "string \<Rightarrow> string" where
  "padStart2 s = replicate (2 - length s) CHR ''0'' @ s"

text \<open>
  \<open>generateBayleafToken\<close>.  The argument is the content of the 16-byte array after
  \<open>crypto.getRandomValues\<close> has filled it.
\<close>

definition generateBayleafToken :: "8 word list \<Rightarrow> string" where
  "generateBayleafToken bytes =
     (let hex = concat (map (\<lambda>b. padStart2 (toString16 b)) bytes)
      in BAYLEAF_TOKEN_PREFIX @ hex)"

definition isHexDigit :: "char \<Rightarrow> bool" where
  "isHexDigit c = (c \<in> set ''0123456789abcdef'')"

section \<open>Key management\<close>

record session =
  sessionEmail :: string
  sessionName :: string
  picture :: "string option"
  exp :: int

text \<open>An OpenRouter key as the provisioning API returns it (the fields the handlers read).\<close>

record openRouterKey =
  hash :: string
  disabled :: bool
  usage_daily :: json
  usage_monthly :: json
  limit :: json
  limit_remaining :: json

record openRouterKeyCreated = openRouterKey +
  key :: "string option"

text \<open>
  What the provisioning API answers during one request: the results of \<open>findKeyByHash\<close>,
  \<open>findKeyByName\<close> and \<open>createKey\<close> (\<open>None\<close> is \<open>null\<close>).
\<close>

record openRouter =
  findKeyByHash :: "string \<Rightarrow> openRouterKey option"
  findKeyByName :: "string \<Rightarrow> openRouterKey option"
  createKey :: "string \<Rightarrow> openRouterKeyCreated option"

text \<open>
  \<open>GetSubstitution\<close> for a string pattern (no captures): in the replacement text \<open>$$\<close>
  is a dollar sign, \<open>$&\<close> the matched text, \<open>$`\<close> the text before the match and \<open>$'\<close>
  the text after it; every other character, a lone \<open>$\<close> included, stands for itself.
\<close>

fun getSubstitution :: "string \<Rightarrow> string \<Rightarrow> string \<Rightarrow> string \<Rightarrow> string" where
  "getSubstitution matched before after [] = []"
| "getSubstitution matched before after [c] = [c]"
| "getSubstitution matched before after (c # d # rest) =
     (if c = CHR ''$'' \<and> d = CHR ''$'' then CHR ''$'' # getSubstitution matched before after rest
      else if c = CHR ''$'' \<and> d = CHR ''&'' then matched @ getSubstitution matched before after rest
      else if c = CHR ''$'' \<and> d = CHR 0x60 then before @ getSubstitution matched before after rest
      else if c = CHR ''$'' \<and> d = CHR 0x27 then after @ getSubstitution matched before after rest
      else c # getSubstitution matched before after (d # rest))"

text \<open>\<open>s.replace(p, r)\<close> for a string pattern: the first occurrence only.\<close>

definition replaceFirst :: "string \<Rightarrow> string \<Rightarrow> string \<Rightarrow> string" where
  "replaceFirst s p r =
     (case indexOf s p of
        None \<Rightarrow> s
      | Some i \<Rightarrow>
          take i s @ getSubstitution p (take i s) (drop (i + length p) s) r
            @ drop (i + length p) s)"

definition getKeyName :: "string \<Rightarrow> string \<Rightarrow> string" where
  "getKeyName mail template = replaceFirst template ''$email'' mail"

text \<open>The queries of the key routes on table \<open>user_keys\<close>.\<close>

definition selectActiveByEmail :: "userKeyRow list \<Rightarrow> string \<Rightarrow> userKeyRow option" where
  "selectActiveByEmail db mail = find (\<lambda>row. email row = mail \<and> revoked row = 0) db"

definition selectRevokedByEmail :: "userKeyRow list \<Rightarrow> string \<Rightarrow> userKeyRow option" where
  "selectRevokedByEmail db mail = find (\<lambda>row. email row = mail \<and> revoked row = 1) db"

text \<open>
  \<open>UPDATE user_keys SET bayleaf_token = ?, or_key_hash = ?, or_key_secret = ?, revoked = 0,
  created_at = datetime('now') WHERE email = ?\<close>.  Column \<open>bayleaf_token\<close> is UNIQUE: the
  statement fails when another row holds the token.
\<close>

definition updateReactivate ::
  "userKeyRow list \<Rightarrow> string \<Rightarrow> string \<Rightarrow> string \<Rightarrow> string \<Rightarrow> string \<Rightarrow> jsError + userKeyRow list" where
  "updateReactivate db token h secret now mail =
     (if list_ex (\<lambda>row. email row = mail) db \<and>
         list_ex (\<lambda>row. email row \<noteq> mail \<and> bayleaf_token row = token) db
      then Inl ConstraintError
      else Inr (map (\<lambda>row. if email row = mail
                            then row\<lparr>bayleaf_token := token, or_key_hash := h,
                                     or_key_secret := secret, revoked := 0, created_at := now\<rparr>
                            else row) db))"

text \<open>
  \<open>INSERT INTO user_keys (email, bayleaf_token, or_key_hash, or_key_secret)\<close>: \<open>email\<close> is
  the primary key, \<open>bayleaf_token\<close> is UNIQUE, \<open>revoked\<close> defaults to 0.
\<close>

definition insertRow ::
  "userKeyRow list \<Rightarrow> string \<Rightarrow> string \<Rightarrow> string \<Rightarrow> string \<Rightarrow> string \<Rightarrow> jsError + userKeyRow list" where
  "insertRow db mail token h secret now =
     (if list_ex (\<lambda>row. email row = mail \<or> bayleaf_token row = token) db
      then Inl ConstraintError
      else Inr (db @ [\<lparr>email = mail, bayleaf_token = token, or_key_hash = h,
                        or_key_secret = secret, revoked = 0, created_at = now\<rparr>]))"



datatype keyOutcome = KeyThrows jsError | KeyResponse response

definition jsonResponse :: "json \<Rightarrow> nat \<Rightarrow> response" where
  "jsonResponse j st = \<lparr>status = st, responseJson = j\<rparr>"

text \<open>\<open>createKey\<close> followed by the test \<open>!newOrKey?.key\<close>: the new hash and secret.\<close>

definition provisionFresh :: "openRouter \<Rightarrow> string \<Rightarrow> (string \<times> string) option" where
  "provisionFresh api keyName =
     (case createKey api keyName of
        None \<Rightarrow> None
      | Some newOrKey \<Rightarrow> if falsy (key newOrKey) then None else Some (hash newOrKey, the (key newOrKey)))"

text \<open>
  The part of \<open>keyRoutes.post('/key')\<close> that sets \<open>orKeyHash\<close> and \<open>orKeySecret\<close>: the
  key of a revoked row when OpenRouter still has it enabled, else a fresh key; \<open>None\<close>
  when provisioning fails.
\<close>

definition upstreamKeyFor ::
  "bindings \<Rightarrow> openRouter \<Rightarrow> session \<Rightarrow> userKeyRow list \<Rightarrow> (string \<times> string) option" where
  "upstreamKeyFor env api sess db =
     (let keyName = getKeyName (sessionEmail sess) (KEY_NAME_TEMPLATE env) in
      case selectRevokedByEmail db (sessionEmail sess) of
        Some rv \<Rightarrow>
          (case findKeyByHash api (or_key_hash rv) of
             Some k \<Rightarrow>
               if \<not> disabled k then Some (or_key_hash rv, or_key_secret rv)
               else provisionFresh api keyName
           | None \<Rightarrow> provisionFresh api keyName)
      | None \<Rightarrow> provisionFresh api keyName)"

text \<open>
  \<open>keyRoutes.post('/key')\<close>, after the session middleware.  \<open>rnd\<close> are the random bytes
  of the new token, \<open>now\<close> is \<open>datetime('now')\<close>.  The result is the response and the
  table after the request; a failing statement throws and leaves the table as it was.
\<close>

definition postKey ::
  "bindings \<Rightarrow> openRouter \<Rightarrow> 8 word list \<Rightarrow> string \<Rightarrow> session \<Rightarrow> userKeyRow list
     \<Rightarrow> keyOutcome \<times> userKeyRow list" where
  "postKey env api rnd now sess db =
     (case selectActiveByEmail db (sessionEmail sess) of
        Some existing \<Rightarrow>
          (KeyResponse (jsonResponse (JObj [(''error'', JStr ''Key already exists'')]) 409), db)
      | None \<Rightarrow>
          (case upstreamKeyFor env api sess db of
             None \<Rightarrow>
               (KeyResponse (jsonResponse (JObj [(''error'', JStr ''Failed to create key'')]) 500), db)
           | Some (orKeyHash, orKeySecret) \<Rightarrow>
               (let bayleafToken = generateBayleafToken rnd;
                    written =
                      (if selectRevokedByEmail db (sessionEmail sess) \<noteq> None
                       then updateReactivate db bayleafToken orKeyHash orKeySecret now
                              (sessionEmail sess)
                       else insertRow db (sessionEmail sess) bayleafToken orKeyHash orKeySecret now)
                in case written of
                     Inl e \<Rightarrow> (KeyThrows e, db)
                   | Inr db' \<Rightarrow>
                       (KeyResponse (jsonResponse
                          (JObj [(''success'', JBool True), (''key'', JStr bayleafToken)]) 200),
                        db'))))"




text \<open>
  The stateless \<open>handleCreateKey\<close> (\<open>POST /key\<close> before the registry existed): it hands the
  OpenRouter key itself to the caller.  \<open>None\<close> is a request without a valid session.
\<close>

definition handleCreateKey :: "bindings \<Rightarrow> openRouter \<Rightarrow> session option \<Rightarrow> response" where
  "handleCreateKey env api sessOpt =
     (case sessOpt of
        None \<Rightarrow> jsonResponse (JObj [(''error'', JStr ''Unauthorized'')]) 401
      | Some sess \<Rightarrow>
          (let keyName = getKeyName (sessionEmail sess) (KEY_NAME_TEMPLATE env) in
           case findKeyByName api keyName of
             Some existing \<Rightarrow> jsonResponse (JObj [(''error'', JStr ''Key already exists'')]) 409
           | None \<Rightarrow>
               (case createKey api keyName of
                  None \<Rightarrow> jsonResponse (JObj [(''error'', JStr ''Failed to create key'')]) 500
                | Some newKeyData \<Rightarrow>
                    if falsy (key newKeyData)
                    then jsonResponse (JObj [(''error'', JStr ''Failed to create key'')]) 500
                    else jsonResponse
                           (JObj [(''success'', JBool True), (''key'', JStr (the (key newKeyData))),
                                  (''hash'', JStr (hash newKeyData))]) 200)))"





section \<open>Proxy routes\<close>

definition blankLine :: string where
  "blankLine = [CHR 0x0A, CHR 0x0A]"

definition buildSystemPrefix :: "bindings \<Rightarrow> bool \<Rightarrow> string" where
  "buildSystemPrefix env campusMode =
     (let prefix = SYSTEM_PROMPT_PREFIX env
      in if campusMode \<and> CAMPUS_SYSTEM_PREFIX env \<noteq> []
         then prefix @ blankLine @ CAMPUS_SYSTEM_PREFIX env
         else prefix)"

definition injectUser :: "jsonBody \<Rightarrow> authResult \<Rightarrow> jsonBody" where
  "injectUser body auth =
     (if truthy (user body) then body
      else if truthy (userEmail auth) then body\<lparr>user := userEmail auth\<rparr>
      else if isCampusMode auth then body\<lparr>user := Some ''campus-anonymous''\<rparr>
      else body)"

text \<open>\<open>Array.prototype.findIndex\<close>: the first index whose element satisfies \<open>P\<close>, or \<open>-1\<close>.\<close>

fun findIndex :: "('a \<Rightarrow> bool) \<Rightarrow> 'a list \<Rightarrow> int" where
  "findIndex P [] = - 1"
| "findIndex P (x # xs) =
     (if P x then 0 else (let i = findIndex P xs in if i < 0 then - 1 else i + 1))"

text \<open>
  The body of \<open>if (body.messages && Array.isArray(body.messages))\<close> in the catch-all
  route, as a function of the messages array.
\<close>

definition injectSystemMessage :: "string \<Rightarrow> message list \<Rightarrow> message list" where
  "injectSystemMessage systemPrefix msgs =
     (let systemIndex = findIndex (\<lambda>m. role m = ''system'') msgs
      in if systemIndex \<ge> 0
         then msgs[nat systemIndex :=
                (msgs ! nat systemIndex)
                  \<lparr>content := systemPrefix @ blankLine @ content (msgs ! nat systemIndex)\<rparr>]
         else \<lparr>role = ''system'', content = systemPrefix, messageRest = []\<rparr> # msgs)"

text \<open>
  The body handed to \<open>fetch\<close>: \<open>JSON.stringify\<close> of a rewritten body, the inbound
  request's own body stream, or none.
\<close>

datatype fetchBody = JsonBody jsonBody | RawBody string | NoBody

record fetchRequest =
  fetchUrl :: string
  fetchMethod :: string
  fetchHeaders :: headers
  fetchBody :: fetchBody

text \<open>
  A proxy handler ends by throwing, by answering itself, or by forwarding a request to
  OpenRouter, whose response it returns with the CORS header set.
\<close>

datatype proxyOutcome =
    ProxyThrows jsError
  | ProxyResponse response
  | ProxyForward fetchRequest

definition forwardJson :: "string \<Rightarrow> string \<Rightarrow> jsonBody \<Rightarrow> proxyOutcome" where
  "forwardJson url auth body =
     ProxyForward \<lparr>fetchUrl = url, fetchMethod = ''POST'',
       fetchHeaders = [(''authorization'', auth), (''content-type'', ''application/json'')],
       fetchBody = JsonBody body\<rparr>"

text \<open>\<open>proxyRoutes.post('/responses')\<close>.\<close>

definition postResponses :: "bindings \<Rightarrow> userKeyRow list \<Rightarrow> request \<Rightarrow> proxyOutcome" where
  "postResponses env db r =
     (case resolveAuth env db r of
        AuthThrows e \<Rightarrow> ProxyThrows e
      | AuthFailure resp \<Rightarrow> ProxyResponse resp
      | AuthSuccess auth \<Rightarrow>
          (case parsedBody r of
             None \<Rightarrow>
               ProxyResponse (jsonResponse (errorJson ''Invalid JSON in request body.'' 400) 400)
           | Some body \<Rightarrow>
               (let systemPrefix = buildSystemPrefix env (isCampusMode auth);
                    body1 = body\<lparr>instructions :=
                              Some (if truthy (instructions body)
                                    then systemPrefix @ blankLine @ the (instructions body)
                                    else systemPrefix)\<rparr>;
                    body2 = injectUser body1 auth
                in forwardJson (OPENROUTER_API @ ''/responses'') (authorization auth) body2)))"

text \<open>
  The simple proxy at the end of the catch-all route.  \<open>bodyUsed\<close> says that
  \<open>c.req.json()\<close> has already read the request's body stream: \<open>fetch\<close> refuses a
  stream that was read with a TypeError, which nothing catches.
\<close>

definition simpleProxy :: "string \<Rightarrow> headers \<Rightarrow> bool \<Rightarrow> request \<Rightarrow> proxyOutcome" where
  "simpleProxy openRouterUrl hs bodyUsed r =
     (if httpMethod r \<noteq> ''GET'' \<and> httpMethod r \<noteq> ''HEAD'' then
        (if bodyUsed then ProxyThrows TypeError
         else ProxyForward \<lparr>fetchUrl = openRouterUrl, fetchMethod = httpMethod r,
                fetchHeaders = hs, fetchBody = RawBody (rawBody r)\<rparr>)
      else ProxyForward \<lparr>fetchUrl = openRouterUrl, fetchMethod = httpMethod r,
             fetchHeaders = hs, fetchBody = NoBody\<rparr>)"

text \<open>
  \<open>proxyRoutes.all('/*')\<close>.  A failing \<open>c.req.json()\<close> is caught and logged, and the
  handler goes on to the simple proxy with the body stream it has read.
\<close>

definition proxyAll :: "bindings \<Rightarrow> userKeyRow list \<Rightarrow> request \<Rightarrow> proxyOutcome" where
  "proxyAll env db r =
     (let path = replaceFirst (pathname r) ''/v1'' [];
          openRouterUrl = OPENROUTER_API @ path @ search r;
          hs = headersDelete (reqHeaders r) ''host''
      in case resolveAuth env db r of
           AuthThrows e \<Rightarrow> ProxyThrows e
         | AuthFailure resp \<Rightarrow> ProxyResponse resp
         | AuthSuccess auth \<Rightarrow>
             (let hs' = headersSet hs ''Authorization'' (authorization auth)
              in if path = ''/chat/completions'' \<and> httpMethod r = ''POST'' then
                   (case parsedBody r of
                      Some body \<Rightarrow>
                        (let body1 =
                               (case messages body of
                                  Some msgs \<Rightarrow>
                                    body\<lparr>messages := Some (injectSystemMessage
                                             (buildSystemPrefix env (isCampusMode auth)) msgs)\<rparr>
                                | None \<Rightarrow> body);
                             body2 = injectUser body1 auth
                         in ProxyForward \<lparr>fetchUrl = openRouterUrl, fetchMethod = ''POST'',
                              fetchHeaders = hs', fetchBody = JsonBody body2\<rparr>)
                    | None \<Rightarrow> simpleProxy openRouterUrl hs' True r)
                 else simpleProxy openRouterUrl hs' False r))"

text \<open>The sub-app mounted at \<open>/v1\<close>: the \<open>/responses\<close> route is registered first.\<close>

definition proxyRoutes :: "bindings \<Rightarrow> userKeyRow list \<Rightarrow> request \<Rightarrow> proxyOutcome" where
  "proxyRoutes env db r =
     (if httpMethod r = ''POST'' \<and> pathname r = ''/v1/responses'' then postResponses env db r
      else proxyAll env db r)"

section \<open>Session tokens\<close>






section \<open>Example data\<close>

text \<open>Concrete bindings, requests and registry contents for the examples below.\<close>

definition exampleEnv :: bindings where
  "exampleEnv =
     \<lparr>KEY_NAME_TEMPLATE = ''BayLeaf API for $email'', SYSTEM_PROMPT_PREFIX = ''P'',
      CAMPUS_IP_RANGES = ''128.114.0.0/16,2607:f5f0::/32'', CAMPUS_SYSTEM_PREFIX = ''C'',
      CAMPUS_POOL_KEY = ''sk-or-v1-pool''\<rparr>"

definition exampleGet :: "headers \<Rightarrow> request" where
  "exampleGet hs =
     \<lparr>httpMethod = ''GET'', pathname = ''/v1/models'', search = [], reqHeaders = hs,
      rawBody = [], parsedBody = None\<rparr>"

definition exampleToken :: string where
  "exampleToken = ''sk-bayleaf-000102030405060708090a0b0c0d0e0f''"

definition exampleRow :: "int \<Rightarrow> userKeyRow" where
  "exampleRow rv =
     \<lparr>email = ''slug@ucsc.edu'', bayleaf_token = exampleToken, or_key_hash = ''h1'',
      or_key_secret = ''sk-or-v1-secret'', revoked = rv, created_at = ''2026-01-01 00:00:00''\<rparr>"

definition exampleChat :: "headers \<Rightarrow> string \<Rightarrow> jsonBody option \<Rightarrow> request" where
  "exampleChat hs raw parsed =
     \<lparr>httpMethod = ''POST'', pathname = ''/v1/chat/completions'', search = [], reqHeaders = hs,
      rawBody = raw, parsedBody = parsed\<rparr>"

definition exampleResponses :: "headers \<Rightarrow> string \<Rightarrow> jsonBody option \<Rightarrow> request" where
  "exampleResponses hs raw parsed =
     \<lparr>httpMethod = ''POST'', pathname = ''/v1/responses'', search = [], reqHeaders = hs,
      rawBody = raw, parsedBody = parsed\<rparr>"

definition exampleMessage :: "string \<Rightarrow> string \<Rightarrow> message" where
  "exampleMessage ro co = \<lparr>role = ro, content = co, messageRest = []\<rparr>"

definition exampleBody :: "message list \<Rightarrow> jsonBody" where
  "exampleBody msgs =
     \<lparr>messages = Some msgs, instructions = None, user = None,
      bodyRest = [(''model'', JStr ''m'')]\<rparr>"

definition examplePassthrough :: authResult where
  "examplePassthrough =
     \<lparr>authorization = ''Bearer sk-or-v1-abc'', isCampusMode = False, userEmail = None\<rparr>"

definition exampleSession :: session where
  "exampleSession =
     \<lparr>sessionEmail = ''slug@ucsc.edu'', sessionName = ''Sammy'', picture = None, exp = 2000\<rparr>"

definition exampleOrKey :: "string \<Rightarrow> openRouterKey" where
  "exampleOrKey h =
     \<lparr>hash = h, disabled = False, usage_daily = JNum 0, usage_monthly = JNum 0,
      limit = JNum 1, limit_remaining = JNum 1\<rparr>"

definition exampleApi :: openRouter where
  "exampleApi =
     \<lparr>findKeyByHash = (\<lambda>h. if h = ''h1'' then Some (exampleOrKey ''h1'') else None),
      findKeyByName = (\<lambda>n. None),
      createKey = (\<lambda>n. Some (openRouterKey.extend (exampleOrKey ''h2'')
                     (openRouterKeyCreated.fields (Some ''sk-or-v1-fresh''))))\<rparr>"

definition exampleBytes :: "8 word list" where
  "exampleBytes = [0, 1, 2, 3, 4, 5, 6, 7, 8, 9, 10, 11, 12, 13, 14, 15]"


definition exampleNow :: string where
  "exampleNow = ''2026-02-02 00:00:00''"

definition exampleCreated :: response where
  "exampleCreated = jsonResponse (JObj [(''success'', JBool True), (''key'', JStr exampleToken)]) 200"










section \<open>Auth resolution: the proxy-token branch\<close>

lemma startsWith_length: "startsWith s p \<Longrightarrow> length p \<le> length s"
  by (metis startsWith_def length_take min.cobounded1 min.commute)

lemma token_not_campus_candidate:
  assumes "startsWith k BAYLEAF_TOKEN_PREFIX"
  shows "\<not> isCampusCandidate (Some k)"
proof -
  have "11 \<le> length k"
    using startsWith_length [OF assms] by (simp add: BAYLEAF_TOKEN_PREFIX_def)
  then have "k \<noteq> []" and "length (toLowerCase k) \<noteq> length ''campus''"
    by (auto simp: toLowerCase_def)
  then show ?thesis
    by (auto simp: isCampusCandidate_def)
qed

lemma findActiveByToken_None:
  "findActiveByToken db k = None \<longleftrightarrow>
     \<not> list_ex (\<lambda>row. bayleaf_token row = k \<and> revoked row = 0) db"
  by (auto simp: findActiveByToken_def find_None_iff list_ex_iff)

lemma findActiveByToken_Some:
  "findActiveByToken db k = Some row \<Longrightarrow>
     row \<in> set db \<and> bayleaf_token row = k \<and> revoked row = 0"
  by (auto simp: findActiveByToken_def find_Some_iff)

lemma resolveAuth_token_branch:
  assumes "providedKeyOf r = Some k" and "startsWith k BAYLEAF_TOKEN_PREFIX"
  shows "resolveAuth env db r =
           (case findActiveByToken db k of
              None \<Rightarrow> AuthFailure invalidOrRevoked
            | Some row \<Rightarrow>
                AuthSuccess \<lparr>authorization = ''Bearer '' @ or_key_secret row,
                             isCampusMode = False, userEmail = Some (email row)\<rparr>)"
proof -
  have "\<not> isCampusCandidate (providedKeyOf r)"
    using assms token_not_campus_candidate by simp
  then show ?thesis
    using assms by (simp add: resolveAuth_def)
qed

text \<open>
  Claim C4.  When the candidate key starts with the proxy-token prefix, \<open>resolveAuth\<close>
  answers 401 "Invalid or revoked API key." if the registry has no row with that token
  and \<open>revoked = 0\<close>; otherwise it returns the authorization \<open>Bearer\<close> of that row's
  OpenRouter secret, with campus mode off and the row's email as the user.
\<close>

theorem resolveAuth_proxy_token:
  assumes "providedKeyOf r = Some k" and "startsWith k BAYLEAF_TOKEN_PREFIX"
  shows "(case findActiveByToken db k of
            None \<Rightarrow> resolveAuth env db r = AuthFailure invalidOrRevoked
          | Some row \<Rightarrow>
              row \<in> set db \<and> bayleaf_token row = k \<and> revoked row = 0 \<and>
              resolveAuth env db r =
                AuthSuccess \<lparr>authorization = ''Bearer '' @ or_key_secret row,
                             isCampusMode = False, userEmail = Some (email row)\<rparr>)
         \<and> (findActiveByToken db k = None \<longleftrightarrow>
              \<not> list_ex (\<lambda>row. bayleaf_token row = k \<and> revoked row = 0) db)
         \<and> status invalidOrRevoked = 401
         \<and> responseJson invalidOrRevoked = errorJson ''Invalid or revoked API key.'' 401"
proof (cases "findActiveByToken db k")
  case None
  then show ?thesis
    using resolveAuth_token_branch [OF assms, of env db] findActiveByToken_None [of db k]
    by (simp add: invalidOrRevoked_def)
next
  case (Some row)
  then show ?thesis
    using resolveAuth_token_branch [OF assms, of env db] findActiveByToken_None [of db k]
      findActiveByToken_Some [OF Some]
    by (simp add: invalidOrRevoked_def)
qed

theorem resolveAuth_proxy_token_witness:
  "providedKeyOf (exampleGet [(''authorization'', ''Bearer '' @ exampleToken)]) = Some exampleToken
   \<and> startsWith exampleToken BAYLEAF_TOKEN_PREFIX
   \<and> resolveAuth exampleEnv [exampleRow 0]
        (exampleGet [(''authorization'', ''Bearer '' @ exampleToken)])
      = AuthSuccess \<lparr>authorization = ''Bearer sk-or-v1-secret'', isCampusMode = False,
                     userEmail = Some ''slug@ucsc.edu''\<rparr>
   \<and> resolveAuth exampleEnv [exampleRow 1]
        (exampleGet [(''authorization'', ''Bearer '' @ exampleToken)])
      = AuthFailure invalidOrRevoked"
    (is "?h1 \<and> ?h2 \<and> ?c1 \<and> ?c2")
proof -
  have h1: ?h1 by code_simp
  have h2: ?h2 by code_simp
  have c1: ?c1
    using resolveAuth_proxy_token [OF h1 h2, where db = "[exampleRow 0]" and env = exampleEnv]
    by (simp add: findActiveByToken_def exampleRow_def)
  have c2: ?c2
    using resolveAuth_proxy_token [OF h1 h2, where db = "[exampleRow 1]" and env = exampleEnv]
    by (simp add: findActiveByToken_def exampleRow_def)
  show ?thesis using h1 h2 c1 c2 by blast
qed

section \<open>Auth resolution: the campus branch\<close>

lemma isCampusCandidate_iff:
  "isCampusCandidate pk \<longleftrightarrow>
     pk = None \<or> pk = Some [] \<or> (\<exists>k. pk = Some k \<and> toLowerCase k = ''campus'')"
  by (cases pk) (auto simp: isCampusCandidate_def)

text \<open>
  An absent, empty or "campus" candidate is decided by the campus check alone: the
  registry and the passthrough are not consulted.  When the check itself throws, so does
  \<open>resolveAuth\<close>.
\<close>

lemma resolveAuth_campus_branch:
  assumes "isCampusCandidate (providedKeyOf r)"
  shows "resolveAuth env db r =
           (case isCampusPassEligible r env of
              Inl e \<Rightarrow> AuthThrows e
            | Inr True \<Rightarrow>
                AuthSuccess \<lparr>authorization = ''Bearer '' @ CAMPUS_POOL_KEY env,
                             isCampusMode = True, userEmail = None\<rparr>
            | Inr False \<Rightarrow> AuthFailure apiKeyRequired)"
  using assms by (simp add: resolveAuth_def)

lemma resolveAuth_campus_examples:
  "resolveAuth exampleEnv [exampleRow 0]
     (exampleGet [(''cf-connecting-ip'', ''128.114.20.7''), (''authorization'', ''Bearer CAMPUS'')])
   = AuthSuccess \<lparr>authorization = ''Bearer sk-or-v1-pool'', isCampusMode = True, userEmail = None\<rparr>"
  "resolveAuth exampleEnv [exampleRow 0] (exampleGet [(''cf-connecting-ip'', ''8.8.8.8'')])
   = AuthFailure apiKeyRequired"
  by code_simp+

text \<open>
  Claim C1.  The claim promises, for a request without a key, the pool credential or a
  terminal 401.  With campus ranges \<open>128.114.0.0/16,2607:f5f0::/32\<close> configured, a
  request without \<open>Authorization\<close> and \<open>CF-Connecting-IP\<close> whose \<open>X-Forwarded-For\<close> is
  \<open>1:2:3:4:5:6:7:8:9::\<close> gets neither: \<open>ipv6ToBigInt\<close> computes \<open>missing = -1\<close>,
  \<open>Array(missing)\<close> throws a RangeError, and \<open>resolveAuth\<close> throws it on.
\<close>

theorem resolveAuth_campus_check_throws:
  "resolveAuth exampleEnv [] (exampleGet [(''x-forwarded-for'', ''1:2:3:4:5:6:7:8:9::'')])
     = AuthThrows RangeError"
  by code_simp

section \<open>Campus ranges\<close>

text \<open>A range and an address of different families never match.\<close>

lemma isIPInCIDR_family_mismatch:
  assumes "includesChar ip CHR '':'' \<noteq> includesChar (hd (splitOn CHR ''/'' cidr)) CHR '':''"
  shows "isIPInCIDR ip cidr = Inr False"
  using assms by (simp add: isIPInCIDR_def Let_def)

text \<open>An IPv4 address is never the cause of an exception.\<close>

lemma isIPInCIDR_v4_total:
  assumes "\<not> includesChar ip CHR '':''"
  shows "\<exists>b. isIPInCIDR ip cidr = Inr b"
  using assms by (auto simp: isIPInCIDR_def Let_def split: option.splits)

lemma cidrMask_zero: "cidrMask w 0 = 0"
  by (simp add: cidrMask_def)

text \<open>
  Claim C8.  The claim promises that a malformed range yields no match without an error,
  so that the other ranges of the list still match.  For the client \<open>::1\<close> the range list
  \<open>1:2:3:4:5:6:7:8:9::/64,::/0\<close> throws a RangeError instead of matching \<open>::/0\<close>, which
  matches when it stands alone.
\<close>

theorem isOnCampus_bad_range_throws:
  "isOnCampus ''::1'' ''1:2:3:4:5:6:7:8:9::/64,::/0'' = Inl RangeError
   \<and> isOnCampus ''::1'' ''::/0'' = Inr True
   \<and> isIPInCIDR ''::1'' ''1:2:3:4:5:6:7:8:9::/64'' = Inl RangeError"
  by code_simp

section \<open>Request transformation\<close>

lemma findIndex_lower: "- 1 \<le> findIndex P xs"
  by (induction xs) (auto simp: Let_def)

lemma findIndex_negative_iff: "findIndex P xs < 0 \<longleftrightarrow> \<not> list_ex P xs"
  by (induction xs) (auto simp: Let_def)

lemma findIndex_first:
  assumes "0 \<le> findIndex P xs"
  shows "nat (findIndex P xs) < length xs \<and> P (xs ! nat (findIndex P xs)) \<and>
         (\<forall>j < nat (findIndex P xs). \<not> P (xs ! j))"
  using assms
proof (induction xs)
  case Nil
  then show ?case by simp
next
  case (Cons x xs)
  show ?case
  proof (cases "P x")
    case True
    then show ?thesis by simp
  next
    case False
    with Cons.prems have nonneg: "0 \<le> findIndex P xs"
      by (auto simp: Let_def split: if_splits)
    then have eq: "findIndex P (x # xs) = findIndex P xs + 1"
      using False by (simp add: Let_def)
    have n: "nat (findIndex P xs + 1) = Suc (nat (findIndex P xs))"
      using nonneg by simp
    from Cons.IH [OF nonneg] show ?thesis
      unfolding eq n using False by (auto simp: less_Suc_eq_0_disj)
  qed
qed

lemma findIndex_least:
  assumes "i < length xs" and "P (xs ! i)" and "\<forall>j < i. \<not> P (xs ! j)"
  shows "findIndex P xs = int i"
proof -
  have "list_ex P xs" using assms(1,2) by (auto simp: list_ex_iff)
  then have nonneg: "0 \<le> findIndex P xs"
    using findIndex_negative_iff [of P xs] by simp
  from findIndex_first [OF nonneg] have
    a: "nat (findIndex P xs) < length xs" and b: "P (xs ! nat (findIndex P xs))"
    and c: "\<forall>j < nat (findIndex P xs). \<not> P (xs ! j)" by auto
  have "nat (findIndex P xs) = i"
    using assms b c by (meson linorder_neqE_nat)
  then show ?thesis using nonneg by simp
qed

lemma injectSystemMessage_some:
  assumes "i < length msgs" and "role (msgs ! i) = ''system''"
    and "\<forall>j < i. role (msgs ! j) \<noteq> ''system''"
  shows "injectSystemMessage prefix msgs =
           msgs[i := (msgs ! i)\<lparr>content := prefix @ blankLine @ content (msgs ! i)\<rparr>]"
  using findIndex_least [of i msgs "\<lambda>m. role m = ''system''"] assms
  by (simp add: injectSystemMessage_def)

lemma injectSystemMessage_none:
  assumes "\<not> list_ex (\<lambda>m. role m = ''system'') msgs"
  shows "injectSystemMessage prefix msgs =
           \<lparr>role = ''system'', content = prefix, messageRest = []\<rparr> # msgs"
  using findIndex_negative_iff [of "\<lambda>m. role m = ''system''" msgs] assms
  by (simp add: injectSystemMessage_def)

lemma injectUser_messages: "messages (injectUser body auth) = messages body"
  by (simp add: injectUser_def)

lemma chat_path: "replaceFirst ''/v1/chat/completions'' ''/v1'' [] = ''/chat/completions''"
  by code_simp

lemma proxyRoutes_chat:
  assumes "httpMethod r = ''POST''" and "pathname r = ''/v1/chat/completions''"
    and "resolveAuth env db r = AuthSuccess auth"
  shows "proxyRoutes env db r =
     (case parsedBody r of
        Some body \<Rightarrow>
          ProxyForward \<lparr>fetchUrl = OPENROUTER_API @ ''/chat/completions'' @ search r,
            fetchMethod = ''POST'',
            fetchHeaders = headersSet (headersDelete (reqHeaders r) ''host'') ''Authorization''
                             (authorization auth),
            fetchBody = JsonBody (injectUser
              (case messages body of
                 Some msgs \<Rightarrow> body\<lparr>messages := Some (injectSystemMessage
                                  (buildSystemPrefix env (isCampusMode auth)) msgs)\<rparr>
               | None \<Rightarrow> body) auth)\<rparr>
      | None \<Rightarrow> ProxyThrows TypeError)"
proof -
  have path: "replaceFirst (pathname r) ''/v1'' [] = ''/chat/completions''"
    unfolding assms(2) by (rule chat_path)
  have "proxyRoutes env db r = proxyAll env db r"
    using assms(2) by (simp add: proxyRoutes_def)
  also have "\<dots> =
     (let hs' = headersSet (headersDelete (reqHeaders r) ''host'') ''Authorization''
                  (authorization auth)
      in case parsedBody r of
           Some body \<Rightarrow>
             ProxyForward \<lparr>fetchUrl = OPENROUTER_API @ ''/chat/completions'' @ search r,
               fetchMethod = ''POST'', fetchHeaders = hs',
               fetchBody = JsonBody (injectUser
                 (case messages body of
                    Some msgs \<Rightarrow> body\<lparr>messages := Some (injectSystemMessage
                                     (buildSystemPrefix env (isCampusMode auth)) msgs)\<rparr>
                  | None \<Rightarrow> body) auth)\<rparr>
         | None \<Rightarrow> simpleProxy (OPENROUTER_API @ ''/chat/completions'' @ search r) hs' True r)"
    unfolding proxyAll_def Let_def path assms(3) using assms(1) by simp
  finally show ?thesis
    using assms(1) by (simp add: simpleProxy_def Let_def split: option.splits)
qed

lemma examplePassthrough_auth:
  "resolveAuth exampleEnv [] (exampleChat [(''authorization'', ''Bearer sk-or-v1-abc'')] raw parsed)
     = AuthSuccess examplePassthrough"
  unfolding exampleChat_def by code_simp

text \<open>
  Claim C7.  For a POST to \<open>/v1/chat/completions\<close> that resolves auth and whose body has a
  \<open>messages\<close> array, the proxy forwards a JSON body in which the first message of role
  \<open>system\<close>, at index \<open>i\<close>, has the content \<open>prefix + "\n\n" + content\<close>, or, when no
  message has that role, a new message \<open>{role: "system", content: prefix}\<close> stands before
  the original ones; \<open>prefix\<close> is \<open>buildSystemPrefix\<close> of the bindings and the campus flag.
\<close>

theorem chat_completions_injection:
  assumes "httpMethod r = ''POST''" and "pathname r = ''/v1/chat/completions''"
    and "parsedBody r = Some body" and "messages body = Some msgs"
    and "resolveAuth env db r = AuthSuccess auth"
  shows "\<exists>fr body'.
           proxyRoutes env db r = ProxyForward fr \<and> fetchBody fr = JsonBody body' \<and>
           (\<forall>i. i < length msgs \<and> role (msgs ! i) = ''system'' \<and>
                (\<forall>j < i. role (msgs ! j) \<noteq> ''system'') \<longrightarrow>
                messages body' =
                  Some (msgs[i := (msgs ! i)\<lparr>content :=
                          buildSystemPrefix env (isCampusMode auth) @ blankLine @ content (msgs ! i)\<rparr>])) \<and>
           (\<not> list_ex (\<lambda>m. role m = ''system'') msgs \<longrightarrow>
                messages body' =
                  Some (\<lparr>role = ''system'', content = buildSystemPrefix env (isCampusMode auth),
                         messageRest = []\<rparr> # msgs))"
proof -
  let ?prefix = "buildSystemPrefix env (isCampusMode auth)"
  let ?body' = "injectUser (body\<lparr>messages := Some (injectSystemMessage ?prefix msgs)\<rparr>) auth"
  let ?fr = "\<lparr>fetchUrl = OPENROUTER_API @ ''/chat/completions'' @ search r,
            fetchMethod = ''POST'',
            fetchHeaders = headersSet (headersDelete (reqHeaders r) ''host'') ''Authorization''
                             (authorization auth),
            fetchBody = JsonBody ?body'\<rparr>"
  have fwd: "proxyRoutes env db r = ProxyForward ?fr"
    using proxyRoutes_chat [OF assms(1,2,5)] assms(3,4) by simp
  have msgs': "messages ?body' = Some (injectSystemMessage ?prefix msgs)"
    by (simp add: injectUser_messages)
  have some: "\<forall>i. i < length msgs \<and> role (msgs ! i) = ''system'' \<and>
                (\<forall>j < i. role (msgs ! j) \<noteq> ''system'') \<longrightarrow>
                messages ?body' =
                  Some (msgs[i := (msgs ! i)\<lparr>content := ?prefix @ blankLine @ content (msgs ! i)\<rparr>])"
    unfolding msgs' using injectSystemMessage_some [of _ msgs ?prefix] by blast
  have none: "\<not> list_ex (\<lambda>m. role m = ''system'') msgs \<longrightarrow>
                messages ?body' =
                  Some (\<lparr>role = ''system'', content = ?prefix, messageRest = []\<rparr> # msgs)"
    unfolding msgs' using injectSystemMessage_none [of msgs ?prefix] by blast
  have body: "fetchBody ?fr = JsonBody ?body'" by simp
  show ?thesis
    using fwd body some none by blast
qed

theorem chat_completions_injection_witness:
  "httpMethod (exampleChat [(''authorization'', ''Bearer sk-or-v1-abc'')] [] 
       (Some (exampleBody [exampleMessage ''user'' ''hi'']))) = ''POST''
   \<and> pathname (exampleChat [(''authorization'', ''Bearer sk-or-v1-abc'')] []
       (Some (exampleBody [exampleMessage ''user'' ''hi'']))) = ''/v1/chat/completions''
   \<and> parsedBody (exampleChat [(''authorization'', ''Bearer sk-or-v1-abc'')] []
       (Some (exampleBody [exampleMessage ''user'' ''hi'']))) = Some (exampleBody [exampleMessage ''user'' ''hi''])
   \<and> messages (exampleBody [exampleMessage ''user'' ''hi'']) = Some [exampleMessage ''user'' ''hi'']
   \<and> resolveAuth exampleEnv [] (exampleChat [(''authorization'', ''Bearer sk-or-v1-abc'')] []
       (Some (exampleBody [exampleMessage ''user'' ''hi'']))) = AuthSuccess examplePassthrough
   \<and> (\<exists>fr body'. proxyRoutes exampleEnv [] (exampleChat [(''authorization'', ''Bearer sk-or-v1-abc'')] []
         (Some (exampleBody [exampleMessage ''user'' ''hi'']))) = ProxyForward fr
        \<and> fetchBody fr = JsonBody body'
        \<and> messages body' = Some [exampleMessage ''system'' ''P'', exampleMessage ''user'' ''hi''])"
  (is "?h1 \<and> ?h2 \<and> ?h3 \<and> ?h4 \<and> ?h5 \<and> ?c")
proof -
  have h1: ?h1 and h2: ?h2 and h3: ?h3 by (simp_all add: exampleChat_def)
  have h4: ?h4 by (simp add: exampleBody_def)
  have h5: ?h5 by (rule examplePassthrough_auth)
  have nosys: "\<not> list_ex (\<lambda>m. role m = ''system'') [exampleMessage ''user'' ''hi'']"
    by (simp add: exampleMessage_def)
  have prefix: "buildSystemPrefix exampleEnv (isCampusMode examplePassthrough) = ''P''"
    by (simp add: buildSystemPrefix_def exampleEnv_def examplePassthrough_def)
  have c: ?c
    using chat_completions_injection [OF h1 h2 h3 h4 h5] nosys
    unfolding prefix by (auto simp: exampleMessage_def)
  show ?thesis using h1 h2 h3 h4 h5 c by blast
qed

text \<open>
  Claim C9.  When \<open>messages\<close> holds more than one system message, only the one of lowest
  index \<open>i\<close> gets the prefix: the array keeps its length, element \<open>i\<close> changes in its
  content alone, and every other element is the original one at its original index.
\<close>

theorem injectSystemMessage_frame:
  assumes "1 < length (filter (\<lambda>m. role m = ''system'') msgs)"
  shows "\<exists>i < length msgs.
           role (msgs ! i) = ''system'' \<and> (\<forall>j < i. role (msgs ! j) \<noteq> ''system'') \<and>
           length (injectSystemMessage prefix msgs) = length msgs \<and>
           injectSystemMessage prefix msgs ! i =
             (msgs ! i)\<lparr>content := prefix @ blankLine @ content (msgs ! i)\<rparr> \<and>
           (\<forall>j < length msgs. j \<noteq> i \<longrightarrow> injectSystemMessage prefix msgs ! j = msgs ! j)"
proof -
  let ?P = "\<lambda>m. role m = ''system''"
  let ?i = "nat (findIndex ?P msgs)"
  have "filter ?P msgs \<noteq> []" using assms by auto
  then have "list_ex ?P msgs"
    by (auto simp: list_ex_iff filter_empty_conv)
  then have nonneg: "0 \<le> findIndex ?P msgs"
    using findIndex_negative_iff [of ?P msgs] by simp
  from findIndex_first [OF nonneg] have
    a: "?i < length msgs" and b: "?P (msgs ! ?i)" and c: "\<forall>j < ?i. \<not> ?P (msgs ! j)"
    by auto
  have out: "injectSystemMessage prefix msgs =
               msgs[?i := (msgs ! ?i)\<lparr>content := prefix @ blankLine @ content (msgs ! ?i)\<rparr>]"
    using nonneg by (simp add: injectSystemMessage_def Let_def)
  have "length (injectSystemMessage prefix msgs) = length msgs"
    unfolding out by simp
  moreover have "injectSystemMessage prefix msgs ! ?i =
      (msgs ! ?i)\<lparr>content := prefix @ blankLine @ content (msgs ! ?i)\<rparr>"
    unfolding out using a by simp
  moreover have "\<forall>j < length msgs. j \<noteq> ?i \<longrightarrow> injectSystemMessage prefix msgs ! j = msgs ! j"
    unfolding out by simp
  ultimately show ?thesis using a b c by blast
qed

theorem injectSystemMessage_frame_witness:
  "1 < length (filter (\<lambda>m. role m = ''system'')
         [exampleMessage ''user'' ''hi'', exampleMessage ''system'' ''S'', exampleMessage ''system'' ''T''])
   \<and> injectSystemMessage ''P''
         [exampleMessage ''user'' ''hi'', exampleMessage ''system'' ''S'', exampleMessage ''system'' ''T'']
       = [exampleMessage ''user'' ''hi'', exampleMessage ''system'' (''P'' @ blankLine @ ''S''),
          exampleMessage ''system'' ''T'']"
  (is "?h \<and> ?c")
proof -
  let ?msgs = "[exampleMessage ''user'' ''hi'', exampleMessage ''system'' ''S'', exampleMessage ''system'' ''T'']"
  have h: ?h by (simp add: exampleMessage_def)
  from injectSystemMessage_frame [OF h, of "''P''"] obtain i where
    i: "i < length ?msgs" "role (?msgs ! i) = ''system''" "\<forall>j < i. role (?msgs ! j) \<noteq> ''system''"
    and len: "length (injectSystemMessage ''P'' ?msgs) = length ?msgs"
    and upd: "injectSystemMessage ''P'' ?msgs ! i =
                (?msgs ! i)\<lparr>content := ''P'' @ blankLine @ content (?msgs ! i)\<rparr>"
    and rest: "\<forall>j < length ?msgs. j \<noteq> i \<longrightarrow> injectSystemMessage ''P'' ?msgs ! j = ?msgs ! j"
    by blast
  have "i = 1"
  proof -
    from i(1) consider "i = 0" | "i = 1" | "i = 2"
      by (auto simp: less_Suc_eq numeral_3_eq_3)
    then show ?thesis
    proof cases
      case 1
      then show ?thesis using i(2) by (simp add: exampleMessage_def)
    next
      case 2
      then show ?thesis .
    next
      case 3
      then have "1 < i" by simp
      from i(3) [rule_format, OF this] have "role (?msgs ! 1) \<noteq> ''system''" .
      then show ?thesis by (simp add: exampleMessage_def)
    qed
  qed
  have "injectSystemMessage ''P'' ?msgs =
          [injectSystemMessage ''P'' ?msgs ! 0, injectSystemMessage ''P'' ?msgs ! 1,
           injectSystemMessage ''P'' ?msgs ! 2]"
    using len by (auto simp: list_eq_iff_nth_eq less_Suc_eq numeral_3_eq_3 numeral_2_eq_2)
  also have "\<dots> = [?msgs ! 0, (?msgs ! 1)\<lparr>content := ''P'' @ blankLine @ content (?msgs ! 1)\<rparr>, ?msgs ! 2]"
    using upd rest \<open>i = 1\<close> by simp
  finally have c: ?c by (simp add: exampleMessage_def)
  show ?thesis using h c by blast
qed

text \<open>
  Claim C10.  \<open>injectUser\<close> treats \<open>user: ""\<close> as it treats an absent \<open>user\<close>: the field
  becomes the resolved email when there is one, else \<open>campus-anonymous\<close> in campus mode
  (and stays as it is when there is neither); a non-empty \<open>user\<close> is kept, and so is
  the rest of the body.
\<close>

theorem injectUser_empty_as_absent:
  "(user body = None \<or> user body = Some [] \<longrightarrow>
      injectUser body auth =
        (if truthy (userEmail auth) then body\<lparr>user := userEmail auth\<rparr>
         else if isCampusMode auth then body\<lparr>user := Some ''campus-anonymous''\<rparr>
         else body))
   \<and> (\<forall>u. user body = Some u \<and> u \<noteq> [] \<longrightarrow> injectUser body auth = body)
   \<and> (truthy (userEmail auth) \<or> isCampusMode auth \<longrightarrow>
        injectUser (body\<lparr>user := Some []\<rparr>) auth = injectUser (body\<lparr>user := None\<rparr>) auth)"
  by (auto simp: injectUser_def)

theorem injectUser_empty_as_absent_witness:
  "injectUser (exampleBody []\<lparr>user := Some []\<rparr>)
       \<lparr>authorization = ''Bearer sk-or-v1-secret'', isCampusMode = False,
        userEmail = Some ''slug@ucsc.edu''\<rparr>
     = exampleBody []\<lparr>user := Some ''slug@ucsc.edu''\<rparr>
   \<and> injectUser (exampleBody []\<lparr>user := Some []\<rparr>)
       \<lparr>authorization = ''Bearer sk-or-v1-pool'', isCampusMode = True, userEmail = None\<rparr>
     = exampleBody []\<lparr>user := Some ''campus-anonymous''\<rparr>
   \<and> injectUser (exampleBody []\<lparr>user := Some ''alice''\<rparr>)
       \<lparr>authorization = ''Bearer sk-or-v1-secret'', isCampusMode = False,
        userEmail = Some ''slug@ucsc.edu''\<rparr>
     = exampleBody []\<lparr>user := Some ''alice''\<rparr>"
  using injectUser_empty_as_absent [of "exampleBody []\<lparr>user := Some []\<rparr>"
      "\<lparr>authorization = ''Bearer sk-or-v1-secret'', isCampusMode = False,
        userEmail = Some ''slug@ucsc.edu''\<rparr>"]
    injectUser_empty_as_absent [of "exampleBody []\<lparr>user := Some []\<rparr>"
      "\<lparr>authorization = ''Bearer sk-or-v1-pool'', isCampusMode = True, userEmail = None\<rparr>"]
    injectUser_empty_as_absent [of "exampleBody []\<lparr>user := Some ''alice''\<rparr>"
      "\<lparr>authorization = ''Bearer sk-or-v1-secret'', isCampusMode = False,
        userEmail = Some ''slug@ucsc.edu''\<rparr>"]
  by (simp add: exampleBody_def)

section \<open>Bodies that are not JSON\<close>

lemma proxyRoutes_responses:
  assumes "httpMethod r = ''POST''" and "pathname r = ''/v1/responses''"
  shows "proxyRoutes env db r = postResponses env db r"
  using assms by (simp add: proxyRoutes_def)

text \<open>
  Claim C2, as stated, fails on \<open>POST /v1/responses\<close>: a body that is not JSON is
  answered by the proxy itself with 400 "Invalid JSON in request body.", and nothing is
  forwarded.
\<close>

theorem responses_malformed_body_rejected:
  "proxyRoutes exampleEnv [] (exampleResponses [(''authorization'', ''Bearer sk-or-v1-abc'')] ''{oops'' None)
     = ProxyResponse (jsonResponse (errorJson ''Invalid JSON in request body.'' 400) 400)"
  unfolding exampleResponses_def by code_simp

text \<open>
  On \<open>POST /v1/chat/completions\<close> the handler means to pass such a body through, but
  the stream it hands to \<open>fetch\<close> has been read by \<open>c.req.json()\<close>: the request ends in
  an uncaught TypeError, and nothing is forwarded either.
\<close>

lemma chat_malformed_body_throws:
  assumes "httpMethod r = ''POST''" and "pathname r = ''/v1/chat/completions''"
    and "parsedBody r = None" and "resolveAuth env db r = AuthSuccess auth"
  shows "proxyRoutes env db r = ProxyThrows TypeError"
  using proxyRoutes_chat [OF assms(1,2,4)] assms(3) by simp

text \<open>
  Claim C2, amended.  For a \<open>POST /v1/responses\<close> that resolves auth and whose body is
  not JSON, the proxy forwards nothing and answers 400 "Invalid JSON in request body."
  itself.
\<close>

theorem responses_malformed_body_400:
  assumes "httpMethod r = ''POST''" and "pathname r = ''/v1/responses''"
    and "parsedBody r = None" and "resolveAuth env db r = AuthSuccess auth"
  shows "proxyRoutes env db r =
           ProxyResponse (jsonResponse (errorJson ''Invalid JSON in request body.'' 400) 400)
         \<and> status (jsonResponse (errorJson ''Invalid JSON in request body.'' 400) 400) = 400"
  using proxyRoutes_responses [OF assms(1,2)] assms(3,4)
  by (simp add: postResponses_def jsonResponse_def)

theorem responses_malformed_body_400_witness:
  "httpMethod (exampleResponses [(''authorization'', ''Bearer '' @ exampleToken)] ''{oops'' None) = ''POST''
   \<and> pathname (exampleResponses [(''authorization'', ''Bearer '' @ exampleToken)] ''{oops'' None)
       = ''/v1/responses''
   \<and> parsedBody (exampleResponses [(''authorization'', ''Bearer '' @ exampleToken)] ''{oops'' None) = None
   \<and> resolveAuth exampleEnv [exampleRow 0]
        (exampleResponses [(''authorization'', ''Bearer '' @ exampleToken)] ''{oops'' None)
       = AuthSuccess \<lparr>authorization = ''Bearer sk-or-v1-secret'', isCampusMode = False,
                       userEmail = Some ''slug@ucsc.edu''\<rparr>
   \<and> proxyRoutes exampleEnv [exampleRow 0]
        (exampleResponses [(''authorization'', ''Bearer '' @ exampleToken)] ''{oops'' None)
       = ProxyResponse \<lparr>status = 400,
           responseJson = JObj [(''error'', JObj [(''message'', JStr ''Invalid JSON in request body.''),
                                                 (''code'', JNum 400)])]\<rparr>"
  (is "?h1 \<and> ?h2 \<and> ?h3 \<and> ?h4 \<and> ?c")
proof -
  have h1: ?h1 and h2: ?h2 and h3: ?h3 by (simp_all add: exampleResponses_def)
  have h4: ?h4 unfolding exampleResponses_def by code_simp
  have c: ?c
    using responses_malformed_body_400 [OF h1 h2 h3 h4]
    by (simp add: jsonResponse_def errorJson_def)
  show ?thesis using h1 h2 h3 h4 c by blast
qed

section \<open>Issuing proxy tokens\<close>

lemma hexDigit_isHexDigit: "n < 16 \<Longrightarrow> isHexDigit (hexDigit n)"
  unfolding hexDigit_def isHexDigit_def by (rule nth_mem) simp

lemma isHexDigit_zero: "isHexDigit CHR ''0''"
  by (simp add: isHexDigit_def)

lemma padded_byte:
  "length (padStart2 (toString16 b)) = 2 \<and> list_all isHexDigit (padStart2 (toString16 b))"
proof -
  have "unat b < 256" using unsigned_less [of b] by simp
  then have "unat b div 16 < 16" and "unat b mod 16 < 16" by auto
  then show ?thesis
    by (auto simp: padStart2_def toString16_def hexDigit_isHexDigit isHexDigit_zero)
qed

lemma hex_of_bytes:
  "length (concat (map (\<lambda>b. padStart2 (toString16 b)) bytes)) = 2 * length bytes \<and>
   list_all isHexDigit (concat (map (\<lambda>b. padStart2 (toString16 b)) bytes))"
  by (induction bytes) (auto simp: padded_byte)

lemma generateBayleafToken_shape:
  "\<exists>hex. generateBayleafToken bytes = BAYLEAF_TOKEN_PREFIX @ hex \<and>
         length hex = 2 * length bytes \<and> list_all isHexDigit hex"
  using hex_of_bytes [of bytes] by (auto simp: generateBayleafToken_def Let_def)

lemma generateBayleafToken_startsWith:
  "startsWith (generateBayleafToken bytes) BAYLEAF_TOKEN_PREFIX"
  by (simp add: generateBayleafToken_def startsWith_def Let_def)

lemma postKey_unfold:
  "postKey env api rnd now sess db =
     (case selectActiveByEmail db (sessionEmail sess) of
        Some existing \<Rightarrow>
          (KeyResponse (jsonResponse (JObj [(''error'', JStr ''Key already exists'')]) 409), db)
      | None \<Rightarrow>
          (case upstreamKeyFor env api sess db of
             None \<Rightarrow>
               (KeyResponse (jsonResponse (JObj [(''error'', JStr ''Failed to create key'')]) 500), db)
           | Some (orKeyHash, orKeySecret) \<Rightarrow>
               (case (if selectRevokedByEmail db (sessionEmail sess) \<noteq> None
                      then updateReactivate db (generateBayleafToken rnd) orKeyHash orKeySecret now
                             (sessionEmail sess)
                      else insertRow db (sessionEmail sess) (generateBayleafToken rnd) orKeyHash
                             orKeySecret now) of
                  Inl e \<Rightarrow> (KeyThrows e, db)
                | Inr db' \<Rightarrow>
                    (KeyResponse (jsonResponse
                       (JObj [(''success'', JBool True), (''key'', JStr (generateBayleafToken rnd))])
                       200), db'))))"
  unfolding postKey_def Let_def by (rule refl)

lemma postKey_success:
  assumes "postKey env api rnd now sess db = (KeyResponse resp, db')" and "status resp = 200"
  shows "\<exists>orKeyHash orKeySecret.
           selectActiveByEmail db (sessionEmail sess) = None \<and>
           upstreamKeyFor env api sess db = Some (orKeyHash, orKeySecret) \<and>
           (if selectRevokedByEmail db (sessionEmail sess) \<noteq> None
            then updateReactivate db (generateBayleafToken rnd) orKeyHash orKeySecret now
                   (sessionEmail sess)
            else insertRow db (sessionEmail sess) (generateBayleafToken rnd) orKeyHash
                   orKeySecret now) = Inr db' \<and>
           resp = jsonResponse
                    (JObj [(''success'', JBool True), (''key'', JStr (generateBayleafToken rnd))]) 200"
  using assms unfolding postKey_unfold
  by (auto simp: jsonResponse_def split: option.splits sum.splits prod.splits if_splits)

lemma selectRevokedByEmail_Some:
  "selectRevokedByEmail db mail = Some rv \<Longrightarrow> rv \<in> set db \<and> email rv = mail \<and> revoked rv = 1"
  by (auto simp: selectRevokedByEmail_def find_Some_iff)


lemma updateReactivate_Inr:
  assumes "updateReactivate db token h secret now mail = Inr db'"
  shows "db' = map (\<lambda>row. if email row = mail
                            then row\<lparr>bayleaf_token := token, or_key_hash := h,
                                     or_key_secret := secret, revoked := 0, created_at := now\<rparr>
                            else row) db"
  using assms by (auto simp: updateReactivate_def split: if_splits)

lemma insertRow_Inr:
  assumes "insertRow db mail token h secret now = Inr db'"
  shows "db' = db @ [\<lparr>email = mail, bayleaf_token = token, or_key_hash = h,
                        or_key_secret = secret, revoked = 0, created_at = now\<rparr>]"
  using assms by (auto simp: insertRow_def split: if_splits)

lemma postKey_stores_key:
  assumes "postKey env api rnd now sess db = (KeyResponse resp, db')" and "status resp = 200"
  shows "\<exists>orKeyHash orKeySecret.
           upstreamKeyFor env api sess db = Some (orKeyHash, orKeySecret) \<and>
           list_ex (\<lambda>row. email row = sessionEmail sess \<and>
                      bayleaf_token row = generateBayleafToken rnd \<and>
                      or_key_hash row = orKeyHash \<and> or_key_secret row = orKeySecret \<and>
                      revoked row = 0) db'"
proof -
  from postKey_success [OF assms] obtain h secret where
    up: "upstreamKeyFor env api sess db = Some (h, secret)"
    and wr: "(if selectRevokedByEmail db (sessionEmail sess) \<noteq> None
            then updateReactivate db (generateBayleafToken rnd) h secret now (sessionEmail sess)
            else insertRow db (sessionEmail sess) (generateBayleafToken rnd) h secret now) = Inr db'"
    by blast
  have "list_ex (\<lambda>row. email row = sessionEmail sess \<and>
                      bayleaf_token row = generateBayleafToken rnd \<and>
                      or_key_hash row = h \<and> or_key_secret row = secret \<and>
                      revoked row = 0) db'"
  proof (cases "selectRevokedByEmail db (sessionEmail sess)")
    case None
    with wr have "insertRow db (sessionEmail sess) (generateBayleafToken rnd) h secret now = Inr db'"
      by simp
    from insertRow_Inr [OF this] show ?thesis by (simp add: list_ex_iff)
  next
    case (Some rv)
    with wr have "updateReactivate db (generateBayleafToken rnd) h secret now (sessionEmail sess) = Inr db'"
      by simp
    from updateReactivate_Inr [OF this] have db': "db' =
        map (\<lambda>row. if email row = sessionEmail sess
               then row\<lparr>bayleaf_token := generateBayleafToken rnd, or_key_hash := h,
                        or_key_secret := secret, revoked := 0, created_at := now\<rparr>
               else row) db" .
    from selectRevokedByEmail_Some [OF Some] have rv: "rv \<in> set db" "email rv = sessionEmail sess"
      by auto
    have "rv\<lparr>bayleaf_token := generateBayleafToken rnd, or_key_hash := h,
             or_key_secret := secret, revoked := 0, created_at := now\<rparr> \<in> set db'"
      unfolding db' using rv by (simp add: image_iff) blast
    then show ?thesis
      unfolding list_ex_iff using rv(2) by (intro bexI, auto)
  qed
  with up show ?thesis by blast
qed

text \<open>
  Claim C3, as stated, fails on the stateless handler \<open>handleCreateKey\<close>, which also
  serves \<open>POST /key\<close>: its successful response carries the OpenRouter key itself, and
  there is no proxy token.
\<close>

theorem handleCreateKey_returns_upstream_key:
  "handleCreateKey exampleEnv exampleApi (Some exampleSession) =
     jsonResponse (JObj [(''success'', JBool True), (''key'', JStr ''sk-or-v1-fresh''),
                         (''hash'', JStr ''h2'')]) 200
   \<and> map_option key (createKey exampleApi (getKeyName (sessionEmail exampleSession)
                         (KEY_NAME_TEMPLATE exampleEnv))) = Some (Some ''sk-or-v1-fresh'')"
  by code_simp

text \<open>
  Claim C3, amended, for the registry-backed route \<open>keyRoutes.post('/key')\<close>.  The body of
  a successful response is \<open>{success: true, key: T}\<close>, where \<open>T\<close> is \<open>sk-bayleaf-\<close> followed
  by the 32 lower-case hex digits of the 16 random bytes: it is made of the random bytes
  alone.  The OpenRouter hash and secret (reused from the revoked row or freshly
  provisioned) are in the user's active row of the table afterwards.
\<close>

theorem postKey_returns_proxy_token:
  assumes "postKey env api rnd now sess db = (KeyResponse resp, db')"
    and "status resp = 200" and "length rnd = 16"
  shows "responseJson resp =
           JObj [(''success'', JBool True), (''key'', JStr (generateBayleafToken rnd))]
         \<and> (\<exists>hex. generateBayleafToken rnd = BAYLEAF_TOKEN_PREFIX @ hex \<and>
                length hex = 32 \<and> list_all isHexDigit hex)
         \<and> (\<exists>orKeyHash orKeySecret.
                upstreamKeyFor env api sess db = Some (orKeyHash, orKeySecret) \<and>
                list_ex (\<lambda>row. email row = sessionEmail sess \<and>
                           bayleaf_token row = generateBayleafToken rnd \<and>
                           or_key_hash row = orKeyHash \<and> or_key_secret row = orKeySecret \<and>
                           revoked row = 0) db')"
proof -
  from postKey_success [OF assms(1,2)] have
    "resp = jsonResponse
       (JObj [(''success'', JBool True), (''key'', JStr (generateBayleafToken rnd))]) 200"
    by blast
  then have body: "responseJson resp =
           JObj [(''success'', JBool True), (''key'', JStr (generateBayleafToken rnd))]"
    by (simp add: jsonResponse_def)
  have shape: "\<exists>hex. generateBayleafToken rnd = BAYLEAF_TOKEN_PREFIX @ hex \<and>
                length hex = 32 \<and> list_all isHexDigit hex"
    using generateBayleafToken_shape [of rnd] assms(3) by simp
  show ?thesis
    using body shape postKey_stores_key [OF assms(1,2)] by blast
qed

lemma postKey_first_time_example:
  "postKey exampleEnv exampleApi exampleBytes exampleNow exampleSession [] =
     (KeyResponse exampleCreated,
      [\<lparr>email = ''slug@ucsc.edu'', bayleaf_token = exampleToken, or_key_hash = ''h2'',
        or_key_secret = ''sk-or-v1-fresh'', revoked = 0, created_at = exampleNow\<rparr>])"
  by code_simp

lemma postKey_reactivation_example:
  "postKey exampleEnv exampleApi exampleBytes exampleNow exampleSession [exampleRow 1] =
     (KeyResponse exampleCreated,
      [\<lparr>email = ''slug@ucsc.edu'', bayleaf_token = exampleToken, or_key_hash = ''h1'',
        or_key_secret = ''sk-or-v1-secret'', revoked = 0, created_at = exampleNow\<rparr>])"
  by code_simp

theorem postKey_returns_proxy_token_witness:
  "postKey exampleEnv exampleApi exampleBytes exampleNow exampleSession [exampleRow 1] =
     (KeyResponse exampleCreated,
      [\<lparr>email = ''slug@ucsc.edu'', bayleaf_token = exampleToken, or_key_hash = ''h1'',
        or_key_secret = ''sk-or-v1-secret'', revoked = 0, created_at = exampleNow\<rparr>])
   \<and> status exampleCreated = 200 \<and> length exampleBytes = 16
   \<and> responseJson exampleCreated =
        JObj [(''success'', JBool True), (''key'', JStr (generateBayleafToken exampleBytes))]
   \<and> upstreamKeyFor exampleEnv exampleApi exampleSession [exampleRow 1]
        = Some (''h1'', ''sk-or-v1-secret'')
   \<and> upstreamKeyFor exampleEnv exampleApi exampleSession [] = Some (''h2'', ''sk-or-v1-fresh'')"
  (is "?h1 \<and> ?h2 \<and> ?h3 \<and> ?c1 \<and> ?c2 \<and> ?c3")
proof -
  have h1: ?h1 by (rule postKey_reactivation_example)
  have h2: ?h2 by (simp add: exampleCreated_def jsonResponse_def)
  have h3: ?h3 by (simp add: exampleBytes_def)
  have c1: ?c1 using postKey_returns_proxy_token [OF h1 h2 h3] by blast
  have c2: ?c2 by code_simp
  have c3: ?c3 by code_simp
  show ?thesis using h1 h2 h3 c1 c2 c3 by blast
qed

section \<open>Revocation\<close>























section \<open>Session tokens: sign and verify\<close>










end
